theory Spec2Isabelle
  imports Complex_Main
begin

section \<open>The Alexa skill for Slack: status and snooze\<close>

text \<open>
  The skill (\<^verbatim>\<open>index.js\<close>) receives a voice intent, looks the device's UTC offset up
  through three HTTP services, computes the minutes until the requested clock time, and
  sets the Slack snooze and profile status. This theory embeds its functions and proves
  the properties of its specification.
\<close>

subsection \<open>Time normalizer\<close>

text \<open>
  \<^verbatim>\<open>normalizeAmazonTime(time)\<close>: a \<^verbatim>\<open>switch\<close> over the four tokens the AMAZON.TIME slot
  delivers for a period of the day (\<^verbatim>\<open>MO\<close> morning, \<^verbatim>\<open>AF\<close> afternoon, \<^verbatim>\<open>EV\<close> evening,
  \<^verbatim>\<open>NI\<close> night). A \<^verbatim>\<open>switch\<close> compares with strict equality, and it has no default case.
\<close>

definition normalizeAmazonTime :: "string \<Rightarrow> string" where
  "normalizeAmazonTime time =
     (if time = ''MO'' then ''09:00''
      else if time = ''AF'' then ''13:00''
      else if time = ''EV'' then ''19:00''
      else if time = ''NI'' then ''21:00''
      else time)"

subsection \<open>Status mapper\<close>

text \<open>
  \<^verbatim>\<open>status.match(/lunch/)\<close> searches the string for the literal pattern; the result is
  truthy exactly when the pattern occurs somewhere in the string. The patterns of
  \<^verbatim>\<open>emojifyStatus\<close> have no metacharacter and no flag, so the search is a case-sensitive
  search for a contiguous run of characters.
\<close>

fun starts_with :: "string \<Rightarrow> string \<Rightarrow> bool" where
  "starts_with [] s = True"
| "starts_with (c # cs) [] = False"
| "starts_with (c # cs) (d # ds) = (c = d \<and> starts_with cs ds)"

fun match_literal :: "string \<Rightarrow> string \<Rightarrow> bool" where
  "match_literal pat [] = (pat = [])"
| "match_literal pat (c # cs) = (starts_with pat (c # cs) \<or> match_literal pat cs)"

record profile =
  status_text :: string
  status_emoji :: string

definition emojifyStatus :: "string \<Rightarrow> profile" where
  "emojifyStatus status =
     (if match_literal ''lunch'' status then
        \<lparr>status_text = status, status_emoji = '':taco:''\<rparr>
      else if match_literal ''coffee'' status then
        \<lparr>status_text = status, status_emoji = '':coffee:''\<rparr>
      else if match_literal ''busy'' status then
        \<lparr>status_text = ''Do not disturb'', status_emoji = '':no_entry_sign:''\<rparr>
      else if match_literal ''errand'' status then
        \<lparr>status_text = status, status_emoji = '':running:''\<rparr>
      else if match_literal ''doctor'' status then
        \<lparr>status_text = status, status_emoji = '':face_with_thermometer:''\<rparr>
      else if match_literal ''away'' status then
        \<lparr>status_text = status, status_emoji = '':no_entry_sign:''\<rparr>
      else if match_literal ''call'' status then
        \<lparr>status_text = status, status_emoji = '':slack_call:''\<rparr>
      else if match_literal ''meeting'' status then
        \<lparr>status_text = status, status_emoji = '':calendar:''\<rparr>
      else if match_literal ''sick'' status then
        \<lparr>status_text = status, status_emoji = '':face_with_thermometer:''\<rparr>
      else if match_literal ''commuting'' status then
        \<lparr>status_text = status, status_emoji = '':bus:''\<rparr>
      else
        \<lparr>status_text = status, status_emoji = '':speech_balloon:''\<rparr>)"

text \<open>
  The specification's wording of the mapper: a priority list of keywords, each with its
  emoji; the first keyword of the list that occurs in the status decides.
\<close>

definition priority :: "(string \<times> string) list" where
  "priority =
     [(''lunch'', '':taco:''), (''coffee'', '':coffee:''), (''busy'', '':no_entry_sign:''),
      (''errand'', '':running:''), (''doctor'', '':face_with_thermometer:''),
      (''away'', '':no_entry_sign:''), (''call'', '':slack_call:''),
      (''meeting'', '':calendar:''), (''sick'', '':face_with_thermometer:''),
      (''commuting'', '':bus:'')]"

definition first_match :: "string \<Rightarrow> (string \<times> string) option" where
  "first_match status = find (\<lambda>entry. match_literal (fst entry) status) priority"

definition display_text :: "string \<Rightarrow> string \<Rightarrow> string" where
  "display_text keyword status = (if keyword = ''busy'' then ''Do not disturb'' else status)"

definition emojify_by_priority :: "string \<Rightarrow> profile" where
  "emojify_by_priority status =
     (case first_match status of
        None \<Rightarrow> \<lparr>status_text = status, status_emoji = '':speech_balloon:''\<rparr>
      | Some entry \<Rightarrow>
          \<lparr>status_text = display_text (fst entry) status, status_emoji = snd entry\<rparr>)"

subsection \<open>Promises, requests and the spoken responses\<close>

text \<open>
  A rejected promise carries an error object: an \<^verbatim>\<open>Error\<close> the skill makes itself, a
  \<^verbatim>\<open>TypeError\<close> the engine throws inside a \<^verbatim>\<open>then\<close> callback (reading a property of
  \<^verbatim>\<open>undefined\<close>), or the \<^verbatim>\<open>RequestError\<close> of the HTTP client when no response arrives.
  The wording of a \<^verbatim>\<open>TypeError\<close> is the engine's; the model writes V8's.
\<close>

datatype err = Error string | TypeError string | RequestError string

fun err_message :: "err \<Rightarrow> string" where
  "err_message (Error m) = m"
| "err_message (TypeError m) = m"
| "err_message (RequestError m) = m"

text \<open>
  What a turn does to the outside world, in order: the responses it emits
  (\<^verbatim>\<open>this.emit(':ask', speech, reprompt)\<close>, \<^verbatim>\<open>this.emit(':tell', speech)\<close>,
  \<^verbatim>\<open>this.emit(':tellWithLinkAccountCard', speech)\<close>) and the HTTP requests it sends. A
  request is recorded by its service and the values the skill puts into it (the Maps API
  key of the environment is left out).
\<close>

datatype speech = Ask string string | Tell string | TellWithLinkAccountCard string

datatype request =
    AddressRequest string string
  | GeocodeRequest string
  | TimezoneRequest rat rat int
  | SnoozeRequest "int option" "string option"
  | ProfileRequest profile "string option"

datatype event = Emit speech | Call request

fun is_emit :: "event \<Rightarrow> bool" where
  "is_emit (Emit sp) = True"
| "is_emit (Call rq) = False"

fun is_call :: "event \<Rightarrow> bool" where
  "is_call (Emit sp) = False"
| "is_call (Call rq) = True"

text \<open>
  A promise that has settled: rejected with an error (\<open>Inl\<close>) or resolved with a value
  (\<open>Inr\<close>), together with the events that happened on the way. \<^verbatim>\<open>p.then(f)\<close> runs \<open>f\<close> on
  the value of a resolved \<open>p\<close> and skips it when \<open>p\<close> is rejected; \<^verbatim>\<open>p.catch(h)\<close> runs \<open>h\<close> on
  the error of a rejected \<open>p\<close> only.
\<close>

type_synonym 'a promise = "(err + 'a) \<times> event list"

definition resolve :: "'a \<Rightarrow> 'a promise" where
  "resolve x = (Inr x, [])"

definition reject :: "err \<Rightarrow> 'a promise" where
  "reject e = (Inl e, [])"

definition and_then :: "'a promise \<Rightarrow> ('a \<Rightarrow> 'b promise) \<Rightarrow> 'b promise" where
  "and_then p f =
     (case fst p of
        Inl e \<Rightarrow> (Inl e, snd p)
      | Inr x \<Rightarrow> (fst (f x), snd p @ snd (f x)))"

definition catch_with :: "'a promise \<Rightarrow> (err \<Rightarrow> event list) \<Rightarrow> event list" where
  "catch_with p h = snd p @ (case fst p of Inl e \<Rightarrow> h e | Inr x \<Rightarrow> [])"

definition emit :: "speech \<Rightarrow> unit promise" where
  "emit sp = (Inr (), [Emit sp])"

text \<open>
  Values that may be \<^verbatim>\<open>undefined\<close> (a slot nobody filled, a missing token) are options.
  A template literal prints \<^verbatim>\<open>undefined\<close> as the word; \<^verbatim>\<open>!x\<close> holds of \<^verbatim>\<open>undefined\<close> and
  of the empty string.
\<close>

definition js_str :: "string option \<Rightarrow> string" where
  "js_str v = (case v of None \<Rightarrow> ''undefined'' | Some s \<Rightarrow> s)"

definition falsy :: "string option \<Rightarrow> bool" where
  "falsy v = (case v of None \<Rightarrow> True | Some s \<Rightarrow> s = [])"

subsection \<open>The services and the host\<close>

text \<open>
  The HTTP responses (\<^verbatim>\<open>resolveWithFullResponse\<close>, \<^verbatim>\<open>json: true\<close>): a status code and a
  parsed body. The bodies are records of the fields the services document; the skill
  reads \<^verbatim>\<open>postalCode\<close> and \<^verbatim>\<open>countryCode\<close> of the device-address service (whose failure
  bodies describe the failure in \<^verbatim>\<open>message\<close>, which the skill never reads), \<^verbatim>\<open>status\<close> and
  \<^verbatim>\<open>results\<close> of the geocoder (of a result, the coordinates \<^verbatim>\<open>geometry.location.lat\<close> and
  \<^verbatim>\<open>geometry.location.lng\<close>), \<^verbatim>\<open>status\<close>, \<^verbatim>\<open>rawOffset\<close> and \<^verbatim>\<open>dstOffset\<close> (seconds) of the
  timezone service, \<^verbatim>\<open>ok\<close> and \<^verbatim>\<open>error\<close> of Slack.
\<close>

record 'b response =
  statusCode :: int
  body :: 'b

record address_body =
  postalCode :: string
  countryCode :: string
  message :: string

record geo_result =
  lat :: rat
  lng :: rat

record maps_body =
  status :: string

record geocode_body = maps_body +
  results :: "geo_result list"

record timezone_body = maps_body +
  rawOffset :: int
  dstOffset :: int

record slack_body =
  ok :: bool
  error :: string

text \<open>
  The world of one turn: the clock of the host (\<^verbatim>\<open>Date.now()\<close>, milliseconds since the
  epoch, read as one value during the turn), the host's own timezone offset in minutes
  (the negated \<^verbatim>\<open>getTimezoneOffset()\<close>; 0 on a host that runs in UTC), the answers of the
  five services to a request (a response, or the error of a request that got none), and
  the string parser of the moment library, which is not part of the skill: \<open>moment_hm w
  text format\<close> is the hour and minute that \<^verbatim>\<open>moment(text, format)\<close> reads, \<open>None\<close> when the
  moment is invalid.
\<close>

record world =
  clock :: int
  tz_local :: int
  moment_hm :: "string \<Rightarrow> string \<Rightarrow> (nat \<times> nat) option"
  address_api :: "request \<Rightarrow> err + address_body response"
  geocode_api :: "request \<Rightarrow> err + geocode_body response"
  timezone_api :: "request \<Rightarrow> err + timezone_body response"
  snooze_api :: "request \<Rightarrow> err + slack_body response"
  profile_api :: "request \<Rightarrow> err + slack_body response"

text \<open>\<^verbatim>\<open>request(opts)\<close>: the request goes out, and the promise settles with the answer.\<close>

definition request :: "request \<Rightarrow> (request \<Rightarrow> err + 'b response) \<Rightarrow> 'b response promise" where
  "request opts service = (service opts, [Call opts])"

subsection \<open>Moments\<close>

text \<open>
  The part of the moment library the skill uses; the library is a dependency of the
  skill, and its operations are written here after its documented behaviour. A moment
  holds the time value of its date object, its offset in minutes and whether it is in UTC
  mode (\<^verbatim>\<open>_d\<close>, \<^verbatim>\<open>_offset\<close>,
  \<^verbatim>\<open>_isUTC\<close>); in UTC mode the date object is shifted by the offset, so that its UTC fields
  are the wall clock, and \<^verbatim>\<open>valueOf()\<close> takes the shift back. Time values and offsets are
  rationals and the arithmetic on them is exact, as it is in JavaScript for whole numbers
  of milliseconds and of minutes.
\<close>

record moment =
  m_d :: rat
  m_offset :: rat
  m_isUTC :: bool

definition valueOf :: "moment \<Rightarrow> rat" where
  "valueOf m = m_d m - m_offset m * 60000"

definition utc_midnight :: "int \<Rightarrow> int" where
  "utc_midnight ms = (ms div 86400000) * 86400000"

text \<open>
  \<^verbatim>\<open>moment(text, 'HH:mmZ')\<close>: the offset token makes the parser work in UTC, so the fields
  the text does not give default to the current UTC date, and hour and minute are read
  at offset zero; the moment made is in local mode.
\<close>

definition moment_parse :: "world \<Rightarrow> string \<Rightarrow> string \<Rightarrow> moment option" where
  "moment_parse w text format =
     (case moment_hm w text format of
        None \<Rightarrow> None
      | Some hm \<Rightarrow>
          Some \<lparr>m_d = of_int (utc_midnight (clock w)) + of_nat (60 * fst hm + snd hm) * 60000,
                m_offset = 0, m_isUTC = False\<rparr>)"

text \<open>\<^verbatim>\<open>moment(Date.now())\<close>: the moment of a time value, in local mode.\<close>

definition moment_of :: "int \<Rightarrow> moment" where
  "moment_of ms = \<lparr>m_d = of_int ms, m_offset = 0, m_isUTC = False\<rparr>"

text \<open>
  \<^verbatim>\<open>m.utcOffset(input, keepLocalTime)\<close>: an input of magnitude below 16 is taken as hours.
  The moment switches to UTC mode at the new offset. Without \<^verbatim>\<open>keepLocalTime\<close> the date
  object is shifted by the change of offset, so that the instant stays; with it, a moment
  in local mode is shifted by the host's offset instead, so that the wall clock stays.
\<close>

definition offset_minutes :: "rat \<Rightarrow> rat" where
  "offset_minutes input = (if \<bar>input\<bar> < 16 then input * 60 else input)"

definition utcOffset :: "world \<Rightarrow> rat \<Rightarrow> bool \<Rightarrow> moment \<Rightarrow> moment" where
  "utcOffset w input keepLocalTime m =
     (let localAdjust = (if \<not> m_isUTC m \<and> keepLocalTime then of_int (tz_local w) else 0);
          adjusted = \<lparr>m_d = m_d m + localAdjust * 60000,
                      m_offset = offset_minutes input, m_isUTC = True\<rparr>
      in if m_offset m = offset_minutes input \<or> keepLocalTime then adjusted
         else adjusted\<lparr>m_d := m_d adjusted + (offset_minutes input - m_offset m) * 60000\<rparr>)"

text \<open>\<^verbatim>\<open>m.add(n, 'day')\<close> on a moment in UTC mode: a day is 24 hours.\<close>

definition add_days :: "int \<Rightarrow> moment \<Rightarrow> moment" where
  "add_days n m = m\<lparr>m_d := m_d m + of_int n * 86400000\<rparr>"

text \<open>\<^verbatim>\<open>a.diff(b, 'minutes')\<close>: the difference of the instants, truncated towards zero.\<close>

definition absFloor :: "rat \<Rightarrow> int" where
  "absFloor x = (if x < 0 then \<lceil>x\<rceil> else \<lfloor>x\<rfloor>)"

definition diff_minutes :: "moment \<Rightarrow> moment \<Rightarrow> int" where
  "diff_minutes a b = absFloor ((valueOf a - valueOf b) / 60000)"

text \<open>
  \<^verbatim>\<open>m.format('h:mm a')\<close> of the moment read by \<^verbatim>\<open>moment(text, 'HH:mm')\<close>: the hour on the
  12-hour clock, the minute in two digits, and \<^verbatim>\<open>am\<close> or \<^verbatim>\<open>pm\<close>; an invalid moment prints
  \<^verbatim>\<open>Invalid date\<close>.
\<close>

definition digit :: "nat \<Rightarrow> char" where
  "digit n = ''0123456789'' ! (n mod 10)"

definition format_h_mm_a :: "(nat \<times> nat) option \<Rightarrow> string" where
  "format_h_mm_a parsed =
     (case parsed of
        None \<Rightarrow> ''Invalid date''
      | Some hm \<Rightarrow>
          (let h = fst hm mod 24; h12 = (if h mod 12 = 0 then 12 else h mod 12)
           in (if h12 < 10 then [digit h12] else [digit (h12 div 10), digit h12])
              @ '':'' @ [digit (snd hm div 10), digit (snd hm)]
              @ (if h < 12 then '' am'' else '' pm'')))"

subsection \<open>Duration calculator\<close>

text \<open>
  \<^verbatim>\<open>getMinutesUntil(requested_time, offset)\<close>. The result is \<open>None\<close> where the source
  returns \<^verbatim>\<open>NaN\<close>: the requested time did not parse, the comparison with an invalid moment
  is false and its \<^verbatim>\<open>diff\<close> is \<^verbatim>\<open>NaN\<close>.
\<close>

definition getMinutesUntil :: "world \<Rightarrow> string \<Rightarrow> rat \<Rightarrow> int option" where
  "getMinutesUntil w requested_time offset =
     (case moment_parse w (requested_time @ ''Z'') ''HH:mmZ'' of
        None \<Rightarrow> None
      | Some parsed \<Rightarrow>
          (let requested = utcOffset w offset True parsed;
               now = utcOffset w offset False (moment_of (clock w));
               requested = (if valueOf now > valueOf requested then add_days 1 requested
                            else requested)
           in Some (diff_minutes requested now)))"

text \<open>
  The instant the code builds as its target, in closed form: the clock time \<open>h:m\<close> on the
  current UTC date, read as a wall clock at the offset (and moved by the host's own
  offset, which is 0 on a host in UTC). The date is the one UTC has, whatever the date at
  the offset is.
\<close>

definition target_instant :: "world \<Rightarrow> nat \<Rightarrow> nat \<Rightarrow> rat \<Rightarrow> rat" where
  "target_instant w h m offset =
     of_int (utc_midnight (clock w))
     + (of_nat (60 * h + m) + of_int (tz_local w) - offset_minutes offset) * 60000"

text \<open>
  The target in the specification's words: the clock time \<open>h:m\<close> today in the timezone at
  the offset (in minutes), today being the date which that timezone has at the time of
  the clock.
\<close>

definition local_midnight :: "int \<Rightarrow> rat \<Rightarrow> rat" where
  "local_midnight now offset =
     of_int \<lfloor>(of_int now + offset * 60000) / 86400000\<rfloor> * 86400000 - offset * 60000"

definition local_target :: "int \<Rightarrow> nat \<Rightarrow> nat \<Rightarrow> rat \<Rightarrow> rat" where
  "local_target now h m offset = local_midnight now offset + of_nat (60 * h + m) * 60000"

subsection \<open>Slack requests\<close>

text \<open>
  \<^verbatim>\<open>setSlackDND(minutes, token)\<close> and \<^verbatim>\<open>setSlackStatus(status, token)\<close>: the request, then a
  rejection unless the status code is 200 and the body's \<^verbatim>\<open>ok\<close> is truthy.
\<close>

definition setSlackDND :: "world \<Rightarrow> int option \<Rightarrow> string option \<Rightarrow> unit promise" where
  "setSlackDND w minutes token =
     and_then (request (SnoozeRequest minutes token) (snooze_api w))
       (\<lambda>response.
          if statusCode response \<noteq> 200 \<or> \<not> ok (body response) then
            reject (Error (''I couldn't snooze notifications. The error from Slack was: ''
                           @ error (body response)))
          else resolve ())"

definition setSlackStatus :: "world \<Rightarrow> profile \<Rightarrow> string option \<Rightarrow> unit promise" where
  "setSlackStatus w prof token =
     and_then (request (ProfileRequest prof token) (profile_api w))
       (\<lambda>response.
          if statusCode response \<noteq> 200 \<or> \<not> ok (body response) then
            reject (Error (''I couldn't set the status. The error from Slack was: ''
                           @ error (body response)))
          else resolve ())"

text \<open>
  \<^verbatim>\<open>setSlackDNDUntil(time, offset, token)\<close>. An \<^verbatim>\<open>undefined\<close> time passes the normalizer
  unchanged and is printed into the text that is parsed.
\<close>

definition setSlackDNDUntil :: "world \<Rightarrow> string option \<Rightarrow> rat \<Rightarrow> string option \<Rightarrow> unit promise" where
  "setSlackDNDUntil w time offset token =
     (let requested_time = js_str (map_option normalizeAmazonTime time);
          minutes = getMinutesUntil w requested_time offset
      in setSlackDND w minutes token)"

subsection \<open>Numbers\<close>

text \<open>
  A JavaScript number is a double: a whole number of at most 53 bits times a power of
  two, the exponent of the power being at least -1074. The result of an addition or a
  division is the double nearest to the exact result, the one with the even whole number
  when two are equally near. Doubles are modelled by the rationals they are, and
  \<open>to_double\<close> rounds a rational to the nearest double. The largest double bounds the
  model: a result beyond it, which is \<^verbatim>\<open>Infinity\<close> in JavaScript, is not modelled.
\<close>

function bit_length :: "int \<Rightarrow> nat" where
  "bit_length n = (if n \<le> 0 then 0 else Suc (bit_length (n div 2)))"
  by pat_completeness auto
termination
  by (relation "measure nat") auto

declare bit_length.simps [simp del]

definition pow2 :: "int \<Rightarrow> rat" where
  "pow2 e = (if 0 \<le> e then 2 ^ nat e else 1 / 2 ^ nat (- e))"

text \<open>The exponent of the largest power of two that is not above a positive rational.\<close>

definition ilog2 :: "rat \<Rightarrow> int" where
  "ilog2 x =
     (if 1 \<le> x then int (bit_length \<lfloor>x\<rfloor>) - 1
      else - int (bit_length (\<lceil>1 / x\<rceil> - 1)))"

definition round_half_even :: "rat \<Rightarrow> int" where
  "round_half_even y =
     (let f = \<lfloor>y\<rfloor>; r = y - of_int f
      in if r < 1 / 2 then f else if 1 / 2 < r then f + 1 else if even f then f else f + 1)"

definition to_double :: "rat \<Rightarrow> rat" where
  "to_double x =
     (if x = 0 then 0
      else (let e = max (ilog2 \<bar>x\<bar> - 52) (- 1074)
            in sgn x * of_int (round_half_even (\<bar>x\<bar> / pow2 e)) * pow2 e))"

subsection \<open>Location and timezone resolver\<close>

definition permission_message :: string where
  "permission_message =
     ''I'm sorry, I couldn't get your location. Make sure you've given this skill permission to use your address in the Alexa app.''"

definition geocode_message :: string where
  "geocode_message =
     ''I'm sorry, I couldn't understand that address. The response from Google Maps was ''"

definition timezone_message :: string where
  "timezone_message =
     ''I'm sorry, I couldn't get the timezone for that location. The response from Google Maps was ''"

definition getEchoAddress :: "world \<Rightarrow> string option \<Rightarrow> string option \<Rightarrow> string promise" where
  "getEchoAddress w device_id consent_token =
     and_then
       (request (AddressRequest (js_str device_id) (''Bearer '' @ js_str consent_token))
          (address_api w))
       (\<lambda>response.
          if statusCode response = 200 then
            resolve (postalCode (body response) @ '' '' @ countryCode (body response))
          else reject (Error permission_message))"

text \<open>
  \<^verbatim>\<open>geocodeLocation(location)\<close> resolves with \<^verbatim>\<open>results[0]\<close>, which is \<^verbatim>\<open>undefined\<close> (\<open>None\<close>)
  when the list of results is empty.
\<close>

definition geocodeLocation :: "world \<Rightarrow> string \<Rightarrow> geo_result option promise" where
  "geocodeLocation w location =
     and_then (request (GeocodeRequest location) (geocode_api w))
       (\<lambda>response.
          if statusCode response = 200 \<and> status (body response) = ''OK'' then
            resolve (case results (body response) of [] \<Rightarrow> None | first # rest \<Rightarrow> Some first)
          else reject (Error (geocode_message @ status (body response))))"

text \<open>
  \<^verbatim>\<open>getUTCOffset(location)\<close>, run as a \<^verbatim>\<open>then\<close> callback: reading the coordinates of an
  \<^verbatim>\<open>undefined\<close> location throws before any request is made, which rejects the promise. The
  timestamp of the request is \<^verbatim>\<open>Math.round(Date.now()/1000)\<close>. The offset is the sum of the
  two offsets divided by 60: an addition and a division of doubles, each rounded to the
  nearest double.
\<close>

definition getUTCOffset :: "world \<Rightarrow> geo_result option \<Rightarrow> rat promise" where
  "getUTCOffset w location =
     (case location of
        None \<Rightarrow> reject (TypeError ''Cannot read property 'geometry' of undefined'')
      | Some place \<Rightarrow>
          and_then
            (request (TimezoneRequest (lat place) (lng place) ((clock w + 500) div 1000))
               (timezone_api w))
            (\<lambda>response.
               if statusCode response = 200 \<and> status (body response) = ''OK'' then
                 resolve
                   (to_double
                      (to_double (of_int (rawOffset (body response))
                                  + of_int (dstOffset (body response))) / 60))
               else reject (Error (timezone_message @ status (body response)))))"

definition getEchoUTCOffset :: "world \<Rightarrow> string option \<Rightarrow> string option \<Rightarrow> rat promise" where
  "getEchoUTCOffset w device_id consent_token =
     and_then (and_then (getEchoAddress w device_id consent_token) (geocodeLocation w))
       (getUTCOffset w)"

subsection \<open>The handler of the busy intent\<close>

text \<open>
  What the handler reads of the event: the device id, the consent token, the access
  token of the session, and the values of the slots \<^verbatim>\<open>status\<close> and \<^verbatim>\<open>time\<close>. Each of
  them may be \<^verbatim>\<open>undefined\<close>; the objects on the path to them are taken to exist.
\<close>

record alexa_event =
  deviceId :: "string option"
  consentToken :: "string option"
  accessToken :: "string option"
  slot_status :: "string option"
  slot_time :: "string option"

text \<open>
  \<^verbatim>\<open>slackBusyIntentHandler\<close>, as the events of the turn. The three checks emit and go on:
  there is no \<^verbatim>\<open>return\<close> after them. \<^verbatim>\<open>emojifyStatus(undefined)\<close> throws in its callback.
\<close>

definition slackBusyIntentHandler :: "world \<Rightarrow> alexa_event \<Rightarrow> event list" where
  "slackBusyIntentHandler w ev =
     (let device_id = deviceId ev;
          consent_token = consentToken ev;
          access_token = accessToken ev;
          status_value = slot_status ev;
          requested_time = slot_time ev
      in (if falsy access_token then
            [Emit (TellWithLinkAccountCard
               ''Please connect your Slack account to Alexa using the Alexa app on your phone.'')]
          else [])
       @ (if falsy status_value then
            [Emit (Ask ''I didn't get your status, please try again.''
               ''I'm sorry, I didn't hear you. Could you say that again?'')]
          else [])
       @ (if falsy requested_time then
            [Emit (Ask ''I didn't get the time, please try again.''
               ''I'm sorry, I didn't hear you. Could you say that again?'')]
          else [])
       @ catch_with
           (and_then
              (and_then
                 (and_then (getEchoUTCOffset w device_id consent_token)
                    (\<lambda>offset. setSlackDNDUntil w requested_time offset access_token))
                 (\<lambda>done.
                    case status_value of
                      None \<Rightarrow> reject (TypeError ''Cannot read property 'match' of undefined'')
                    | Some text \<Rightarrow> setSlackStatus w (emojifyStatus text) access_token))
              (\<lambda>done.
                 emit (Tell (''Okay, I'll change your status and snooze your notifications until ''
                   @ format_h_mm_a (moment_hm w (js_str requested_time) ''HH:mm'') @ ''.''))))
           (\<lambda>e. [Emit (Tell (err_message e))]))"

subsection \<open>A parser and a world to run the model in\<close>

text \<open>
  A parser to put in for the library's, for the two formats of the skill; it follows the
  library's forgiving way of reading a text. For each token of the format in turn (the
  hour, the colon, the minute, and the offset of \<^verbatim>\<open>HH:mmZ\<close>) the first match in the rest of
  the text is taken and the text before it is skipped: one or two digits for the hour and
  for the minute, \<^verbatim>\<open>Z\<close> in either case or a sign with two digits (and two more, after a colon
  or not) for the offset. A token without a match is left out, and a field nothing was
  read for is 0. The moment is invalid when no token found a match, when the hour is
  above 24 or the minute above 59, and at hour 24 with any minute but 0. A text with an
  offset in digits other than zero moves the moment, which a pair of hour and minute
  cannot say: such a text, which the slot does not deliver, is read as \<open>None\<close> here.
\<close>

definition digit_value :: "char \<Rightarrow> nat option" where
  "digit_value c =
     map_of [(CHR ''0'', 0), (CHR ''1'', 1), (CHR ''2'', 2), (CHR ''3'', 3), (CHR ''4'', 4),
             (CHR ''5'', 5), (CHR ''6'', 6), (CHR ''7'', 7), (CHR ''8'', 8), (CHR ''9'', 9)] c"

fun find_number :: "string \<Rightarrow> (nat \<times> string) option" where
  "find_number [] = None"
| "find_number (c # cs) =
     (case digit_value c of
        None \<Rightarrow> find_number cs
      | Some a \<Rightarrow>
          (case cs of
             [] \<Rightarrow> Some (a, [])
           | d # ds \<Rightarrow>
               (case digit_value d of
                  None \<Rightarrow> Some (a, cs)
                | Some b \<Rightarrow> Some (10 * a + b, ds))))"

definition after_number :: "string \<Rightarrow> string" where
  "after_number text = (case find_number text of None \<Rightarrow> text | Some found \<Rightarrow> snd found)"

definition after_colon :: "string \<Rightarrow> string" where
  "after_colon text =
     (case dropWhile (\<lambda>c. c \<noteq> CHR '':'') text of [] \<Rightarrow> text | c # rest \<Rightarrow> rest)"

fun two_digits :: "string \<Rightarrow> nat option" where
  "two_digits (a # b # rest) =
     (case (digit_value a, digit_value b) of
        (Some x, Some y) \<Rightarrow> Some (10 * x + y)
      | _ \<Rightarrow> None)"
| "two_digits text = None"

fun find_offset :: "string \<Rightarrow> int option" where
  "find_offset [] = None"
| "find_offset (c # cs) =
     (if c = CHR ''Z'' \<or> c = CHR ''z'' then Some 0
      else if c = CHR ''+'' \<or> c = CHR ''-'' then
        (case two_digits cs of
           None \<Rightarrow> find_offset cs
         | Some hours \<Rightarrow>
             (let rest = drop 2 cs;
                  minutes = (case two_digits (if take 1 rest = '':'' then drop 1 rest else rest) of
                               None \<Rightarrow> 0 | Some mm \<Rightarrow> mm);
                  total = int (60 * hours + minutes)
              in Some (if c = CHR ''+'' then total else - total)))
      else find_offset cs)"

definition valid_clock :: "nat option \<Rightarrow> nat option \<Rightarrow> (nat \<times> nat) option" where
  "valid_clock hour minute =
     (let h = (case hour of None \<Rightarrow> 0 | Some n \<Rightarrow> n);
          m = (case minute of None \<Rightarrow> 0 | Some n \<Rightarrow> n)
      in if 24 < h \<or> 59 < m \<or> (h = 24 \<and> 0 < m) then None else Some (h, m))"

definition hhmm :: "string \<Rightarrow> string \<Rightarrow> (nat \<times> nat) option" where
  "hhmm text format =
     (let hour = map_option fst (find_number text);
          text1 = after_colon (after_number text);
          minute = map_option fst (find_number text1);
          text2 = after_number text1
      in if format = ''HH:mm'' then
           (if hour = None \<and> minute = None then None else valid_clock hour minute)
         else if format = ''HH:mmZ'' then
           (case find_offset text2 of
              None \<Rightarrow> if hour = None \<and> minute = None then None else valid_clock hour minute
            | Some shift \<Rightarrow> if shift = 0 then valid_clock hour minute else None)
         else None)"

text \<open>
  A device in Brisbane (UTC+10 the whole year) and a host in UTC, at a given time of the
  clock: every service answers with success, except that Slack answers a request without
  a token with \<^verbatim>\<open>not_authed\<close>.
\<close>

definition slack_answer :: "string option \<Rightarrow> err + slack_body response" where
  "slack_answer token =
     (case token of
        None \<Rightarrow> Inr \<lparr>statusCode = 200, body = \<lparr>ok = False, error = ''not_authed''\<rparr>\<rparr>
      | Some t \<Rightarrow> Inr \<lparr>statusCode = 200, body = \<lparr>ok = True, error = []\<rparr>\<rparr>)"

fun token_of :: "request \<Rightarrow> string option" where
  "token_of (SnoozeRequest minutes token) = token"
| "token_of (ProfileRequest prof token) = token"
| "token_of rq = None"

definition brisbane :: "int \<Rightarrow> world" where
  "brisbane now =
     \<lparr>clock = now, tz_local = 0, moment_hm = hhmm,
      address_api = (\<lambda>rq. Inr \<lparr>statusCode = 200,
         body = \<lparr>postalCode = ''4000'', countryCode = ''AU'', message = []\<rparr>\<rparr>),
      geocode_api = (\<lambda>rq. Inr \<lparr>statusCode = 200,
         body = \<lparr>status = ''OK'', results = [\<lparr>lat = - 2747 / 100, lng = 15302 / 100\<rparr>]\<rparr>\<rparr>),
      timezone_api = (\<lambda>rq. Inr \<lparr>statusCode = 200,
         body = \<lparr>status = ''OK'', rawOffset = 36000, dstOffset = 0\<rparr>\<rparr>),
      snooze_api = (\<lambda>rq. slack_answer (token_of rq)),
      profile_api = (\<lambda>rq. slack_answer (token_of rq))\<rparr>"

text \<open>
  Variations of that world: the device-address service denies the request, the geocoder
  finds nothing, the timezone service refuses, and a timezone whose offset is not a whole
  number of minutes.
\<close>

definition address_denied :: world where
  "address_denied =
     (brisbane 1468879200000)\<lparr>address_api := (\<lambda>rq. Inr \<lparr>statusCode = 403,
        body = \<lparr>postalCode = [], countryCode = [],
                message = ''Access to this resource has been denied''\<rparr>\<rparr>)\<rparr>"

definition geocode_failed :: world where
  "geocode_failed =
     (brisbane 1468879200000)\<lparr>geocode_api := (\<lambda>rq. Inr \<lparr>statusCode = 200,
        body = \<lparr>status = ''ZERO_RESULTS'', results = []\<rparr>\<rparr>)\<rparr>"

definition timezone_failed :: world where
  "timezone_failed =
     (brisbane 1468879200000)\<lparr>timezone_api := (\<lambda>rq. Inr \<lparr>statusCode = 200,
        body = \<lparr>status = ''OVER_QUERY_LIMIT'', rawOffset = 0, dstOffset = 0\<rparr>\<rparr>)\<rparr>"


text \<open>
  A device in Bogota (UTC-5 the whole year), and a timezone whose offset in seconds is
  no multiple of 60 and has no finite binary fraction as its quotient by 60.
\<close>

definition bogota :: "int \<Rightarrow> world" where
  "bogota now =
     (brisbane now)\<lparr>
        address_api := (\<lambda>rq. Inr \<lparr>statusCode = 200,
          body = \<lparr>postalCode = ''110111'', countryCode = ''CO'', message = []\<rparr>\<rparr>),
        geocode_api := (\<lambda>rq. Inr \<lparr>statusCode = 200,
          body = \<lparr>status = ''OK'', results = [\<lparr>lat = 471 / 100, lng = - 7407 / 100\<rparr>]\<rparr>\<rparr>),
        timezone_api := (\<lambda>rq. Inr \<lparr>statusCode = 200,
          body = \<lparr>status = ''OK'', rawOffset = - 18000, dstOffset = 0\<rparr>\<rparr>)\<rparr>"


text \<open>
  A request of the busy intent from a user who has not linked a Slack account: both slots
  are filled, the access token is missing.
\<close>

definition unlinked_request :: alexa_event where
  "unlinked_request =
     \<lparr>deviceId = Some ''amzn1.device'', consentToken = Some ''consent'', accessToken = None,
      slot_status = Some ''in a meeting'', slot_time = Some ''13:00''\<rparr>"

section \<open>Properties\<close>

subsection \<open>Literal search\<close>

lemma starts_with_iff: "starts_with pat s \<longleftrightarrow> (\<exists>post. s = pat @ post)"
  by (induction pat s rule: starts_with.induct) auto

lemma match_literal_iff: "match_literal pat s \<longleftrightarrow> (\<exists>pre post. s = pre @ pat @ post)"
proof (induction s)
  case Nil
  show ?case by auto
next
  case (Cons c cs)
  show ?case
  proof
    assume "match_literal pat (c # cs)"
    then consider "starts_with pat (c # cs)" | "match_literal pat cs" by auto
    then show "\<exists>pre post. c # cs = pre @ pat @ post"
    proof cases
      case 1
      then obtain post where "c # cs = pat @ post" by (auto simp: starts_with_iff)
      then have "c # cs = [] @ pat @ post" by simp
      then show ?thesis by blast
    next
      case 2
      then obtain pre post where "cs = pre @ pat @ post" using Cons.IH by blast
      then have "c # cs = (c # pre) @ pat @ post" by simp
      then show ?thesis by blast
    qed
  next
    assume "\<exists>pre post. c # cs = pre @ pat @ post"
    then obtain pre post where eq: "c # cs = pre @ pat @ post" by blast
    show "match_literal pat (c # cs)"
    proof (cases pre)
      case Nil
      with eq have "starts_with pat (c # cs)" by (auto simp: starts_with_iff)
      then show ?thesis by simp
    next
      case (Cons p ps)
      with eq have "cs = ps @ pat @ post" by simp
      then have "match_literal pat cs" using Cons.IH by blast
      then show ?thesis by simp
    qed
  qed
qed

subsection \<open>Time normalizer\<close>

text \<open>
  C1. Each of the four period-of-day tokens is mapped to its clock string: the morning
  token \<^verbatim>\<open>MO\<close> to \<^verbatim>\<open>09:00\<close>, the afternoon token \<^verbatim>\<open>AF\<close> to \<^verbatim>\<open>13:00\<close>, the evening token
  \<^verbatim>\<open>EV\<close> to \<^verbatim>\<open>19:00\<close> and the night token \<^verbatim>\<open>NI\<close> to \<^verbatim>\<open>21:00\<close>.
\<close>

theorem normalizeAmazonTime_tokens:
  "normalizeAmazonTime ''MO'' = ''09:00'' \<and>
   normalizeAmazonTime ''AF'' = ''13:00'' \<and>
   normalizeAmazonTime ''EV'' = ''19:00'' \<and>
   normalizeAmazonTime ''NI'' = ''21:00''"
  by (simp add: normalizeAmazonTime_def)

text \<open>
  C2. On every string that is not one of the four tokens the normalizer is the identity;
  nothing checks that the string is a clock time.
\<close>

theorem normalizeAmazonTime_identity:
  "time \<notin> {''MO'', ''AF'', ''EV'', ''NI''} \<Longrightarrow> normalizeAmazonTime time = time"
  by (simp add: normalizeAmazonTime_def)

theorem normalizeAmazonTime_identity_witness:
  "''25:99'' \<notin> {''MO'', ''AF'', ''EV'', ''NI''} \<and> normalizeAmazonTime ''25:99'' = ''25:99''"
proof -
  have out: "''25:99'' \<notin> {''MO'', ''AF'', ''EV'', ''NI''}" by simp
  from out normalizeAmazonTime_identity [OF out] show ?thesis by (rule conjI)
qed

subsection \<open>Status mapper\<close>

lemma emojifyStatus_refines: "emojifyStatus st = emojify_by_priority st"
  by (simp add: emojifyStatus_def emojify_by_priority_def first_match_def priority_def
      display_text_def)

lemma first_match_Some:
  assumes "i < length priority"
    and "match_literal (fst (priority ! i)) st"
    and "\<forall>j<i. \<not> match_literal (fst (priority ! j)) st"
  shows "first_match st = Some (priority ! i)"
  unfolding first_match_def find_Some_iff using assms by blast

lemma first_match_None:
  assumes "\<forall>entry \<in> set priority. \<not> match_literal (fst entry) st"
  shows "first_match st = None"
  unfolding first_match_def find_None_iff using assms by blast

text \<open>
  C5. The keywords are tried in the order lunch, coffee, busy, errand, doctor, away, call,
  meeting, sick, commuting, and the earliest keyword of that list occurring in the status
  decides the emoji (and the text, which is the status itself except for busy): so
  \<^verbatim>\<open>busy lunch\<close> gets the lunch emoji. A status in which no keyword occurs gets
  \<^verbatim>\<open>:speech_balloon:\<close> and keeps its text.
\<close>

theorem emojifyStatus_priority_order:
  "map fst priority =
     [''lunch'', ''coffee'', ''busy'', ''errand'', ''doctor'', ''away'', ''call'',
      ''meeting'', ''sick'', ''commuting''] \<and>
   (\<forall>i < length priority.
      match_literal (fst (priority ! i)) st \<longrightarrow>
      (\<forall>j<i. \<not> match_literal (fst (priority ! j)) st) \<longrightarrow>
      emojifyStatus st =
        \<lparr>status_text = display_text (fst (priority ! i)) st,
         status_emoji = snd (priority ! i)\<rparr>) \<and>
   emojifyStatus ''busy lunch'' = \<lparr>status_text = ''busy lunch'', status_emoji = '':taco:''\<rparr> \<and>
   ((\<forall>entry \<in> set priority. \<not> match_literal (fst entry) st) \<longrightarrow>
      emojifyStatus st = \<lparr>status_text = st, status_emoji = '':speech_balloon:''\<rparr>)"
proof (intro conjI allI impI)
  show "map fst priority =
     [''lunch'', ''coffee'', ''busy'', ''errand'', ''doctor'', ''away'', ''call'',
      ''meeting'', ''sick'', ''commuting'']"
    by (simp add: priority_def)
next
  fix i
  assume "i < length priority"
    and "match_literal (fst (priority ! i)) st"
    and "\<forall>j<i. \<not> match_literal (fst (priority ! j)) st"
  then have "first_match st = Some (priority ! i)" by (rule first_match_Some)
  then show "emojifyStatus st =
        \<lparr>status_text = display_text (fst (priority ! i)) st,
         status_emoji = snd (priority ! i)\<rparr>"
    by (simp add: emojifyStatus_refines emojify_by_priority_def)
next
  show "emojifyStatus ''busy lunch'' =
      \<lparr>status_text = ''busy lunch'', status_emoji = '':taco:''\<rparr>"
    by (simp add: emojifyStatus_def)
next
  assume "\<forall>entry \<in> set priority. \<not> match_literal (fst entry) st"
  then have "first_match st = None" by (rule first_match_None)
  then show "emojifyStatus st = \<lparr>status_text = st, status_emoji = '':speech_balloon:''\<rparr>"
    by (simp add: emojifyStatus_refines emojify_by_priority_def)
qed

theorem emojifyStatus_priority_order_witness:
  "match_literal ''busy'' ''so busy on a call'' \<and>
   \<not> match_literal ''lunch'' ''so busy on a call'' \<and>
   \<not> match_literal ''coffee'' ''so busy on a call'' \<and>
   emojifyStatus ''so busy on a call'' =
     \<lparr>status_text = ''Do not disturb'', status_emoji = '':no_entry_sign:''\<rparr> \<and>
   emojifyStatus ''gone fishing'' =
     \<lparr>status_text = ''gone fishing'', status_emoji = '':speech_balloon:''\<rparr>"
proof -
  let ?s = "''so busy on a call''"
  have h1: "2 < length priority" by (simp add: priority_def)
  have h2: "match_literal (fst (priority ! 2)) ?s" by (simp add: priority_def)
  have h3: "\<forall>j<2. \<not> match_literal (fst (priority ! j)) ?s"
    by (simp add: priority_def less_Suc_eq numeral_2_eq_2)
  have h4: "\<forall>entry \<in> set priority. \<not> match_literal (fst entry) ''gone fishing''"
    by (simp add: priority_def)
  from emojifyStatus_priority_order [of ?s] h1 h2 h3
  have "emojifyStatus ?s =
      \<lparr>status_text = display_text (fst (priority ! 2)) ?s, status_emoji = snd (priority ! 2)\<rparr>"
    by blast
  moreover from emojifyStatus_priority_order [of "''gone fishing''"] h4
  have "emojifyStatus ''gone fishing'' =
      \<lparr>status_text = ''gone fishing'', status_emoji = '':speech_balloon:''\<rparr>"
    by blast
  ultimately show ?thesis by (simp add: priority_def display_text_def)
qed

text \<open>
  C6 as stated fails: a status in which \<^verbatim>\<open>busy\<close> occurs does not always get the text
  \<^verbatim>\<open>Do not disturb\<close>. The checks for lunch and coffee come first, so \<^verbatim>\<open>busy lunch\<close> keeps
  its text and gets the lunch emoji.
\<close>

theorem busy_not_always_do_not_disturb:
  "match_literal ''busy'' ''busy lunch'' \<and>
   emojifyStatus ''busy lunch'' = \<lparr>status_text = ''busy lunch'', status_emoji = '':taco:''\<rparr> \<and>
   emojifyStatus ''busy lunch'' \<noteq>
     \<lparr>status_text = ''Do not disturb'', status_emoji = '':no_entry_sign:''\<rparr>"
  by (simp add: emojifyStatus_def)

text \<open>
  C6, amended. A status in which \<^verbatim>\<open>busy\<close> occurs, and neither \<^verbatim>\<open>lunch\<close> nor \<^verbatim>\<open>coffee\<close>,
  gets the text \<^verbatim>\<open>Do not disturb\<close> and the emoji \<^verbatim>\<open>:no_entry_sign:\<close>, whatever else it
  says.
\<close>

theorem emojifyStatus_busy:
  "match_literal ''busy'' st \<Longrightarrow> \<not> match_literal ''lunch'' st \<Longrightarrow>
   \<not> match_literal ''coffee'' st \<Longrightarrow>
   emojifyStatus st = \<lparr>status_text = ''Do not disturb'', status_emoji = '':no_entry_sign:''\<rparr>"
  by (simp add: emojifyStatus_def)

theorem emojifyStatus_busy_witness:
  "match_literal ''busy'' ''I am busy, go away'' \<and>
   emojifyStatus ''I am busy, go away'' =
     \<lparr>status_text = ''Do not disturb'', status_emoji = '':no_entry_sign:''\<rparr>"
proof -
  have b: "match_literal ''busy'' ''I am busy, go away''" by simp
  have l: "\<not> match_literal ''lunch'' ''I am busy, go away''" by simp
  have c: "\<not> match_literal ''coffee'' ''I am busy, go away''" by simp
  from b emojifyStatus_busy [OF b l c] show ?thesis by (rule conjI)
qed

text \<open>
  C10. The search is case-sensitive: \<^verbatim>\<open>Lunch\<close> and \<^verbatim>\<open>BUSY\<close> contain no keyword in lower
  case, match nothing, and get \<^verbatim>\<open>:speech_balloon:\<close> with their text kept, while \<^verbatim>\<open>lunch\<close>
  gets the lunch emoji.
\<close>

theorem emojifyStatus_case_sensitive:
  "emojifyStatus ''Lunch'' = \<lparr>status_text = ''Lunch'', status_emoji = '':speech_balloon:''\<rparr> \<and>
   emojifyStatus ''BUSY'' = \<lparr>status_text = ''BUSY'', status_emoji = '':speech_balloon:''\<rparr> \<and>
   emojifyStatus ''lunch'' = \<lparr>status_text = ''lunch'', status_emoji = '':taco:''\<rparr>"
  by (simp add: emojifyStatus_def)

subsection \<open>Duration calculator\<close>

lemmas parser_defs = hhmm_def after_number_def after_colon_def digit_value_def valid_clock_def

lemma absFloor_nonneg: "0 \<le> x \<Longrightarrow> absFloor x = \<lfloor>x\<rfloor>"
  by (simp add: absFloor_def)

lemma valueOf_now: "valueOf (utcOffset w offset False (moment_of c)) = of_int c"
  by (simp add: valueOf_def utcOffset_def moment_of_def Let_def)

lemma valueOf_requested:
  assumes "moment_hm w text format = Some (h, m)"
  shows "\<exists>parsed. moment_parse w text format = Some parsed \<and>
           valueOf (utcOffset w offset True parsed) = target_instant w h m offset"
  using assms
  by (simp add: moment_parse_def valueOf_def utcOffset_def target_instant_def Let_def
      algebra_simps)

lemma valueOf_add_days: "valueOf (add_days n m) = valueOf m + of_int n * 86400000"
  by (simp add: valueOf_def add_days_def)

text \<open>
  The calculator in closed form: the target instant, a day later when the clock is past
  it, minus the clock, in minutes truncated towards zero.
\<close>

lemma getMinutesUntil_closed_form:
  assumes "moment_hm w (t @ ''Z'') ''HH:mmZ'' = Some (h, m)"
  shows "getMinutesUntil w t offset =
     Some (absFloor (((if target_instant w h m offset < of_int (clock w)
                       then target_instant w h m offset + 86400000
                       else target_instant w h m offset) - of_int (clock w)) / 60000))"
proof -
  from valueOf_requested [OF assms, of offset] obtain parsed
    where p: "moment_parse w (t @ ''Z'') ''HH:mmZ'' = Some parsed"
      and v: "valueOf (utcOffset w offset True parsed) = target_instant w h m offset"
    by blast
  show ?thesis
    by (simp add: getMinutesUntil_def p Let_def diff_minutes_def valueOf_now v valueOf_add_days)
qed

lemma getMinutesUntil_rollover:
  assumes "moment_hm w (t @ ''Z'') ''HH:mmZ'' = Some (h, m)"
    and "target_instant w h m offset < of_int (clock w)"
  shows "getMinutesUntil w t offset =
           Some (absFloor ((target_instant w h m offset + 86400000 - of_int (clock w)) / 60000))"
    and "absFloor ((target_instant w h m offset + 86400000 - of_int (clock w)) / 60000) < 1440"
proof -
  show "getMinutesUntil w t offset =
      Some (absFloor ((target_instant w h m offset + 86400000 - of_int (clock w)) / 60000))"
    using assms by (simp add: getMinutesUntil_closed_form)
next
  let ?x = "(target_instant w h m offset + 86400000 - of_int (clock w)) / 60000"
  from assms(2) have lt: "?x < 1440" by simp
  then have "\<lfloor>?x\<rfloor> < 1440" by linarith
  moreover have "\<lceil>?x\<rceil> < 1440" if "?x < 0"
    using that by (simp add: ceiling_less_iff)
  ultimately show "absFloor ?x < 1440" by (simp add: absFloor_def)
qed

text \<open>
  Measured against the target the code builds, the calculator does what it is meant to:
  when the clock is not past that target, it adds no day and returns target minus now in
  whole minutes, which is not negative, and 0 when the clock is exactly at the target.
\<close>

lemma getMinutesUntil_no_rollover:
  assumes "moment_hm w (t @ ''Z'') ''HH:mmZ'' = Some (h, m)"
    and "of_int (clock w) \<le> target_instant w h m offset"
  shows "getMinutesUntil w t offset =
           Some \<lfloor>(target_instant w h m offset - of_int (clock w)) / 60000\<rfloor> \<and>
         0 \<le> \<lfloor>(target_instant w h m offset - of_int (clock w)) / 60000\<rfloor> \<and>
         (of_int (clock w) = target_instant w h m offset \<longrightarrow>
            getMinutesUntil w t offset = Some 0)"
proof -
  let ?x = "(target_instant w h m offset - of_int (clock w)) / 60000"
  from assms(2) have nonneg: "0 \<le> ?x" by simp
  from assms have "getMinutesUntil w t offset = Some (absFloor ?x)"
    by (simp add: getMinutesUntil_closed_form)
  then have eq: "getMinutesUntil w t offset = Some \<lfloor>?x\<rfloor>"
    using nonneg by (simp add: absFloor_nonneg)
  moreover from nonneg have "0 \<le> \<lfloor>?x\<rfloor>" by simp
  moreover have "getMinutesUntil w t offset = Some 0"
    if "of_int (clock w) = target_instant w h m offset"
    using eq that by simp
  ultimately show ?thesis by blast
qed

text \<open>
  C3 fails on the code. In Bogota (UTC-5) at 20:00 in the evening of 17 July the UTC date
  is already 18 July (01:00 UTC). Asked for 21:00, the target of the claim is 21:00 of
  17 July in Bogota, which is after now, and the claim gives target minus now, 60
  minutes. The code puts the target on the UTC date, 21:00 of 18 July in Bogota, and
  returns 1500 minutes: a day too many, without having added one.
\<close>

theorem getMinutesUntil_day_too_many:
  "hhmm ''21:00Z'' ''HH:mmZ'' = Some (21, 0) \<and>
   local_target 1468803600000 21 0 (- 300) = 1468807200000 \<and>
   of_int (clock (bogota 1468803600000)) \<le> local_target 1468803600000 21 0 (- 300) \<and>
   \<lfloor>(local_target 1468803600000 21 0 (- 300) - of_int (clock (bogota 1468803600000))) / 60000\<rfloor>
     = 60 \<and>
   getMinutesUntil (bogota 1468803600000) ''21:00'' (- 300) = Some 1500"
proof -
  have p: "moment_hm (bogota 1468803600000) (''21:00'' @ ''Z'') ''HH:mmZ'' = Some (21, 0)"
    by (simp add: bogota_def brisbane_def parser_defs)
  have d: "utc_midnight 1468803600000 = 1468800000000"
    by (simp add: utc_midnight_def)
  have c: "clock (bogota 1468803600000) = 1468803600000"
    by (simp add: bogota_def brisbane_def)
  have z: "tz_local (bogota 1468803600000) = 0"
    by (simp add: bogota_def brisbane_def)
  have t: "target_instant (bogota 1468803600000) 21 0 (- 300) = 1468893600000"
    by (simp add: target_instant_def c z offset_minutes_def d)
  have l: "local_target 1468803600000 21 0 (- 300) = 1468807200000"
    by (simp add: local_target_def local_midnight_def floor_eq_iff)
  have r: "getMinutesUntil (bogota 1468803600000) ''21:00'' (- 300) = Some 1500"
    by (simp add: getMinutesUntil_closed_form [OF p] t c absFloor_def)
  have h: "hhmm ''21:00Z'' ''HH:mmZ'' = Some (21, 0)"
    by (simp add: parser_defs)
  from h l r show ?thesis by (simp add: c)
qed

text \<open>
  C4 fails on the code. In Brisbane (UTC+10) at 08:00 in the morning the UTC date is
  still the day before (22:00 UTC). Asked for 07:00, the calculator puts the target on
  the UTC date, finds the clock past it, adds one day, and is still an hour short of the
  clock: the result is 60 minutes in the past instead of the 1380 minutes to the next
  07:00.
\<close>

theorem getMinutesUntil_negative_after_rollover:
  "hhmm ''07:00Z'' ''HH:mmZ'' = Some (7, 0) \<and>
   target_instant (brisbane 1468879200000) 7 0 600 < of_int (clock (brisbane 1468879200000)) \<and>
   getMinutesUntil (brisbane 1468879200000) ''07:00'' 600 = Some (- 60)"
proof -
  have p: "moment_hm (brisbane 1468879200000) (''07:00'' @ ''Z'') ''HH:mmZ'' = Some (7, 0)"
    by (simp add: brisbane_def parser_defs)
  have d: "utc_midnight 1468879200000 = 1468800000000"
    by (simp add: utc_midnight_def)
  have t: "target_instant (brisbane 1468879200000) 7 0 600 = 1468789200000"
    by (simp add: target_instant_def brisbane_def offset_minutes_def d)
  have c: "clock (brisbane 1468879200000) = 1468879200000" by (simp add: brisbane_def)
  have "getMinutesUntil (brisbane 1468879200000) ''07:00'' 600 = Some (- 60)"
    by (simp add: getMinutesUntil_closed_form [OF p] t c absFloor_def)
  moreover have "hhmm ''07:00Z'' ''HH:mmZ'' = Some (7, 0)"
    by (simp add: parser_defs)
  ultimately show ?thesis by (simp add: t c)
qed


subsection \<open>Numbers\<close>

lemma bit_length_le: "n < 2 ^ k \<Longrightarrow> bit_length n \<le> k"
proof (induction k arbitrary: n)
  case 0
  then have "n \<le> 0" by simp
  then show ?case by (simp add: bit_length.simps)
next
  case (Suc k)
  show ?case
  proof (cases "n \<le> 0")
    case True
    then show ?thesis by (simp add: bit_length.simps)
  next
    case False
    from Suc.prems have "n div 2 < 2 ^ k" by simp
    then have "bit_length (n div 2) \<le> k" by (rule Suc.IH)
    with False show ?thesis by (simp add: bit_length.simps [of n])
  qed
qed

lemma bit_length_bounds: "0 < n \<Longrightarrow> 2 ^ (bit_length n - 1) \<le> n \<and> n < 2 ^ bit_length n"
proof (induction n rule: bit_length.induct)
  case (1 n)
  show ?case
  proof (cases "n div 2 \<le> 0")
    case True
    with "1.prems" have "n = 1" by linarith
    then show ?thesis
      by (simp add: bit_length.simps [of 1] bit_length.simps [of 0])
  next
    case False
    then have pos: "0 < n div 2" by simp
    with "1.prems" "1.IH" have ih: "2 ^ (bit_length (n div 2) - 1) \<le> n div 2"
      "n div 2 < 2 ^ bit_length (n div 2)" by auto
    have bl: "bit_length n = Suc (bit_length (n div 2))"
      using "1.prems" by (simp add: bit_length.simps [of n])
    have "0 < bit_length (n div 2)"
      using pos by (simp add: bit_length.simps [of "n div 2"])
    then obtain j where j: "bit_length (n div 2) = Suc j" by (cases "bit_length (n div 2)") auto
    from ih j have "2 * 2 ^ j \<le> 2 * (n div 2)" by simp
    also have "\<dots> \<le> n" by simp
    finally have lo: "2 ^ (bit_length n - 1) \<le> n" by (simp add: bl j)
    from ih(2) have "n div 2 + 1 \<le> 2 ^ bit_length (n div 2)" by simp
    then have "2 * (n div 2) + 2 \<le> 2 * 2 ^ bit_length (n div 2)" by simp
    moreover have "n < 2 * (n div 2) + 2" by presburger
    ultimately have "n < 2 ^ bit_length n" by (simp add: bl)
    with lo show ?thesis by simp
  qed
qed




lemma pow2_neg: "e \<le> 0 \<Longrightarrow> pow2 e = 1 / 2 ^ nat (- e)"
  by (cases "e = 0") (simp_all add: pow2_def)

text \<open>
  \<open>ilog2\<close> is the exponent it is meant to be: a positive rational lies between the power
  of two with that exponent and the next.
\<close>

lemma ilog2_bounds:
  assumes "0 < x"
  shows "pow2 (ilog2 x) \<le> x \<and> x < pow2 (ilog2 x + 1)"
proof (cases "1 \<le> x")
  case True
  let ?n = "\<lfloor>x\<rfloor>"
  let ?L = "bit_length ?n"
  from True have n: "0 < ?n" by simp
  from bit_length_bounds [OF n] have lo: "2 ^ (?L - 1) \<le> ?n" and hi: "?n < 2 ^ ?L" by auto
  have L: "0 < ?L" using n by (simp add: bit_length.simps [of ?n])
  have il: "ilog2 x = int ?L - 1" using True by (simp add: ilog2_def)
  have "(2::rat) ^ (?L - 1) = of_int (2 ^ (?L - 1))" by simp
  also have "\<dots> \<le> of_int ?n" using lo by (simp only: of_int_le_iff)
  also have "\<dots> \<le> x" by simp
  finally have a: "(2::rat) ^ (?L - 1) \<le> x" .
  from hi have nL: "?n + 1 \<le> 2 ^ ?L" by simp
  have "x < of_int (?n + 1)" by linarith
  also have "\<dots> \<le> of_int (2 ^ ?L)" using nL by (simp only: of_int_le_iff)
  finally have b: "x < 2 ^ ?L" by simp
  have "nat (int ?L - 1) = ?L - 1" by simp
  with a b L show ?thesis by (simp add: il pow2_def)
next
  case False
  let ?y = "1 / x"
  let ?c = "\<lceil>?y\<rceil>"
  let ?L = "bit_length (?c - 1)"
  from False assms have y: "1 < ?y" by simp
  then have c: "0 < ?c - 1" by linarith
  from bit_length_bounds [OF c] have lo: "2 ^ (?L - 1) \<le> ?c - 1" and hi: "?c - 1 < 2 ^ ?L"
    by auto
  have L: "0 < ?L" using c by (simp add: bit_length.simps [of "?c - 1"])
  have il: "ilog2 x = - int ?L" using False by (simp add: ilog2_def)
  have "(2::rat) ^ (?L - 1) = of_int (2 ^ (?L - 1))" by simp
  also have "\<dots> \<le> of_int (?c - 1)" using lo by (simp only: of_int_le_iff)
  also have "\<dots> < ?y" by linarith
  finally have a: "(2::rat) ^ (?L - 1) < 1 / x" .
  from hi have cL: "?c \<le> 2 ^ ?L" by simp
  have "?y \<le> of_int ?c" by (rule le_of_int_ceiling)
  also have "\<dots> \<le> of_int (2 ^ ?L)" using cL by (simp only: of_int_le_iff)
  finally have b: "1 / x \<le> 2 ^ ?L" by simp
  from b assms have b': "1 / 2 ^ ?L \<le> x" by (simp add: field_simps)
  from a assms have a': "x < 1 / 2 ^ (?L - 1)" by (simp add: field_simps)
  have e1: "pow2 (ilog2 x) = 1 / 2 ^ ?L" by (simp add: il pow2_neg)
  have "nat (int ?L - 1) = ?L - 1" by simp
  then have e2: "pow2 (ilog2 x + 1) = 1 / 2 ^ (?L - 1)"
    using L by (simp add: il pow2_neg)
  from a' b' show ?thesis by (simp only: e1 e2 simp_thms)
qed

lemma ilog2_less:
  assumes "0 < x" and "x < 2 ^ k" and "1 \<le> k"
  shows "ilog2 x < int k"
proof (cases "1 \<le> x")
  case True
  from assms(2) have "x < of_int (2 ^ k)" by simp
  then have "\<lfloor>x\<rfloor> < 2 ^ k" by (simp only: floor_less_iff)
  then have "bit_length \<lfloor>x\<rfloor> \<le> k" by (rule bit_length_le)
  with True show ?thesis by (simp add: ilog2_def)
next
  case False
  with assms(3) show ?thesis by (simp add: ilog2_def)
qed


lemma round_half_even_int: "round_half_even (of_int n) = n"
  by (simp add: round_half_even_def)


text \<open>Whole numbers below \<open>2 ^ 53\<close> in magnitude are doubles.\<close>

lemma to_double_int:
  assumes "\<bar>n\<bar> < 2 ^ 53"
  shows "to_double (of_int n) = of_int n"
proof (cases "n = 0")
  case True
  then show ?thesis by (simp add: to_double_def)
next
  case False
  let ?x = "of_int n :: rat"
  let ?e = "max (ilog2 \<bar>?x\<bar> - 52) (- 1074)"
  have "0 < \<bar>?x\<bar>" using False by simp
  moreover have "\<bar>?x\<bar> < 2 ^ 53"
  proof -
    have "\<bar>?x\<bar> = of_int \<bar>n\<bar>" by simp
    also have "\<dots> < of_int (2 ^ 53)" using assms by (simp only: of_int_less_iff)
    finally show ?thesis by simp
  qed
  ultimately have "ilog2 \<bar>?x\<bar> < int 53" by (rule ilog2_less) simp
  then have e: "?e \<le> 0" by simp
  define k where "k = nat (- ?e)"
  have p: "pow2 ?e = 1 / 2 ^ k"
    using e by (cases "?e = 0") (simp_all add: pow2_def k_def)
  have "\<bar>?x\<bar> / pow2 ?e = of_int (\<bar>n\<bar> * 2 ^ k)" by (simp add: p)
  then have "round_half_even (\<bar>?x\<bar> / pow2 ?e) = \<bar>n\<bar> * 2 ^ k"
    by (simp only: round_half_even_int)
  then have "to_double ?x = sgn ?x * of_int (\<bar>n\<bar> * 2 ^ k) * (1 / 2 ^ k)"
    using False by (simp add: to_double_def Let_def p)
  also have "\<dots> = sgn ?x * \<bar>?x\<bar>" by simp
  also have "\<dots> = ?x" by (simp add: mult_sgn_abs)
  finally show ?thesis .
qed




lemma to_double_600: "to_double 600 = 600"
  using to_double_int [of 600] by simp

lemma to_double_36000: "to_double 36000 = 36000"
  using to_double_int [of 36000] by simp

subsection \<open>Location and timezone resolver\<close>

lemma match_literal_suffix: "match_literal field (prefix @ field)"
proof -
  have "prefix @ field = prefix @ field @ []" by simp
  then show ?thesis unfolding match_literal_iff by blast
qed

text \<open>
  C7 as stated fails at the first stage: when the device-address service answers with a
  status other than 200, the chain rejects with the fixed message about the permission,
  in which nothing of the response occurs.
\<close>

theorem address_failure_message_is_fixed:
  "address_api address_denied (AddressRequest ''amzn1.device'' ''Bearer consent'') =
     Inr \<lparr>statusCode = 403,
          body = \<lparr>postalCode = [], countryCode = [],
                  message = ''Access to this resource has been denied''\<rparr>\<rparr> \<and>
   getEchoUTCOffset address_denied (Some ''amzn1.device'') (Some ''consent'') =
     (Inl (Error permission_message),
      [Call (AddressRequest ''amzn1.device'' ''Bearer consent'')]) \<and>
   \<not> match_literal ''Access to this resource has been denied''
        (err_message (Error permission_message))"
  by (simp add: address_denied_def brisbane_def getEchoUTCOffset_def getEchoAddress_def
      and_then_def request_def reject_def js_str_def permission_message_def)

text \<open>
  C7, amended. In every run of the chain, a failing stage rejects the chain and no later
  stage is called. The device-address stage fails on a status code other than 200, with
  the fixed message about the permission. The geocoding and the timezone stage fail on a
  status code other than 200 or a body status other than \<^verbatim>\<open>OK\<close>, with a message that ends
  with the body's status.
\<close>

theorem getEchoUTCOffset_rejects_at_first_failure:
  "(address_api w (AddressRequest (js_str device_id) (''Bearer '' @ js_str consent_token))
      = Inr r1 \<and>
    statusCode r1 \<noteq> 200 \<longrightarrow>
    getEchoUTCOffset w device_id consent_token =
      (Inl (Error permission_message),
       [Call (AddressRequest (js_str device_id) (''Bearer '' @ js_str consent_token))])) \<and>
   (address_api w (AddressRequest (js_str device_id) (''Bearer '' @ js_str consent_token))
      = Inr r1 \<and>
    statusCode r1 = 200 \<and>
    geocode_api w (GeocodeRequest (postalCode (body r1) @ '' '' @ countryCode (body r1)))
      = Inr r2 \<and>
    (statusCode r2 \<noteq> 200 \<or> status (body r2) \<noteq> ''OK'') \<longrightarrow>
    getEchoUTCOffset w device_id consent_token =
      (Inl (Error (geocode_message @ status (body r2))),
       [Call (AddressRequest (js_str device_id) (''Bearer '' @ js_str consent_token)),
        Call (GeocodeRequest (postalCode (body r1) @ '' '' @ countryCode (body r1)))]) \<and>
    match_literal (status (body r2)) (geocode_message @ status (body r2))) \<and>
   (address_api w (AddressRequest (js_str device_id) (''Bearer '' @ js_str consent_token))
      = Inr r1 \<and>
    statusCode r1 = 200 \<and>
    geocode_api w (GeocodeRequest (postalCode (body r1) @ '' '' @ countryCode (body r1)))
      = Inr r2 \<and>
    statusCode r2 = 200 \<and> status (body r2) = ''OK'' \<and> results (body r2) = place # rest \<and>
    timezone_api w (TimezoneRequest (lat place) (lng place) ((clock w + 500) div 1000))
      = Inr r3 \<and>
    (statusCode r3 \<noteq> 200 \<or> status (body r3) \<noteq> ''OK'') \<longrightarrow>
    getEchoUTCOffset w device_id consent_token =
      (Inl (Error (timezone_message @ status (body r3))),
       [Call (AddressRequest (js_str device_id) (''Bearer '' @ js_str consent_token)),
        Call (GeocodeRequest (postalCode (body r1) @ '' '' @ countryCode (body r1))),
        Call (TimezoneRequest (lat place) (lng place) ((clock w + 500) div 1000))]) \<and>
    match_literal (status (body r3)) (timezone_message @ status (body r3)))"
proof (intro conjI impI)
  assume "address_api w (AddressRequest (js_str device_id) (''Bearer '' @ js_str consent_token))
      = Inr r1 \<and> statusCode r1 \<noteq> 200"
  then show "getEchoUTCOffset w device_id consent_token =
      (Inl (Error permission_message),
       [Call (AddressRequest (js_str device_id) (''Bearer '' @ js_str consent_token))])"
    by (simp add: getEchoUTCOffset_def getEchoAddress_def and_then_def request_def reject_def)
next
  assume "address_api w (AddressRequest (js_str device_id) (''Bearer '' @ js_str consent_token))
      = Inr r1 \<and>
    statusCode r1 = 200 \<and>
    geocode_api w (GeocodeRequest (postalCode (body r1) @ '' '' @ countryCode (body r1)))
      = Inr r2 \<and>
    (statusCode r2 \<noteq> 200 \<or> status (body r2) \<noteq> ''OK'')"
  then show "getEchoUTCOffset w device_id consent_token =
      (Inl (Error (geocode_message @ status (body r2))),
       [Call (AddressRequest (js_str device_id) (''Bearer '' @ js_str consent_token)),
        Call (GeocodeRequest (postalCode (body r1) @ '' '' @ countryCode (body r1)))])"
    by (auto simp add: getEchoUTCOffset_def getEchoAddress_def geocodeLocation_def
        and_then_def request_def reject_def resolve_def)
next
  show "match_literal (status (body r2)) (geocode_message @ status (body r2))"
    by (rule match_literal_suffix)
next
  assume "address_api w (AddressRequest (js_str device_id) (''Bearer '' @ js_str consent_token))
      = Inr r1 \<and>
    statusCode r1 = 200 \<and>
    geocode_api w (GeocodeRequest (postalCode (body r1) @ '' '' @ countryCode (body r1)))
      = Inr r2 \<and>
    statusCode r2 = 200 \<and> status (body r2) = ''OK'' \<and> results (body r2) = place # rest \<and>
    timezone_api w (TimezoneRequest (lat place) (lng place) ((clock w + 500) div 1000))
      = Inr r3 \<and>
    (statusCode r3 \<noteq> 200 \<or> status (body r3) \<noteq> ''OK'')"
  then show "getEchoUTCOffset w device_id consent_token =
      (Inl (Error (timezone_message @ status (body r3))),
       [Call (AddressRequest (js_str device_id) (''Bearer '' @ js_str consent_token)),
        Call (GeocodeRequest (postalCode (body r1) @ '' '' @ countryCode (body r1))),
        Call (TimezoneRequest (lat place) (lng place) ((clock w + 500) div 1000))])"
    by (auto simp add: getEchoUTCOffset_def getEchoAddress_def geocodeLocation_def
        getUTCOffset_def and_then_def request_def reject_def resolve_def)
next
  show "match_literal (status (body r3)) (timezone_message @ status (body r3))"
    by (rule match_literal_suffix)
qed

theorem getEchoUTCOffset_rejects_at_first_failure_witness:
  "getEchoUTCOffset address_denied (Some ''amzn1.device'') (Some ''consent'') =
     (Inl (Error permission_message),
      [Call (AddressRequest ''amzn1.device'' ''Bearer consent'')]) \<and>
   getEchoUTCOffset geocode_failed (Some ''amzn1.device'') (Some ''consent'') =
     (Inl (Error (geocode_message @ ''ZERO_RESULTS'')),
      [Call (AddressRequest ''amzn1.device'' ''Bearer consent''),
       Call (GeocodeRequest ''4000 AU'')]) \<and>
   getEchoUTCOffset timezone_failed (Some ''amzn1.device'') (Some ''consent'') =
     (Inl (Error (timezone_message @ ''OVER_QUERY_LIMIT'')),
      [Call (AddressRequest ''amzn1.device'' ''Bearer consent''),
       Call (GeocodeRequest ''4000 AU''),
       Call (TimezoneRequest (- 2747 / 100) (15302 / 100) 1468879200)])"
proof -
  let ?ok1 = "\<lparr>statusCode = 200,
      body = \<lparr>postalCode = ''4000'', countryCode = ''AU'', message = []\<rparr>\<rparr>"
  let ?ok2 = "\<lparr>statusCode = 200,
      body = \<lparr>status = ''OK'', results = [\<lparr>lat = - 2747 / 100, lng = 15302 / 100\<rparr>]\<rparr>\<rparr>"
  let ?place = "\<lparr>lat = - 2747 / 100, lng = 15302 / 100 :: rat\<rparr>"
  have a: "getEchoUTCOffset address_denied (Some ''amzn1.device'') (Some ''consent'') =
     (Inl (Error permission_message),
      [Call (AddressRequest ''amzn1.device'' ''Bearer consent'')])"
    using getEchoUTCOffset_rejects_at_first_failure
      [of address_denied "Some ''amzn1.device''" "Some ''consent''"
        "\<lparr>statusCode = 403, body = \<lparr>postalCode = [], countryCode = [],
            message = ''Access to this resource has been denied''\<rparr>\<rparr>"]
    by (simp add: address_denied_def brisbane_def js_str_def)
  have b: "getEchoUTCOffset geocode_failed (Some ''amzn1.device'') (Some ''consent'') =
     (Inl (Error (geocode_message @ ''ZERO_RESULTS'')),
      [Call (AddressRequest ''amzn1.device'' ''Bearer consent''),
       Call (GeocodeRequest ''4000 AU'')])"
    using getEchoUTCOffset_rejects_at_first_failure
      [of geocode_failed "Some ''amzn1.device''" "Some ''consent''" ?ok1
        "\<lparr>statusCode = 200, body = \<lparr>status = ''ZERO_RESULTS'', results = []\<rparr>\<rparr>"]
    by (simp add: geocode_failed_def brisbane_def js_str_def)
  have c: "getEchoUTCOffset timezone_failed (Some ''amzn1.device'') (Some ''consent'') =
     (Inl (Error (timezone_message @ ''OVER_QUERY_LIMIT'')),
      [Call (AddressRequest ''amzn1.device'' ''Bearer consent''),
       Call (GeocodeRequest ''4000 AU''),
       Call (TimezoneRequest (- 2747 / 100) (15302 / 100) 1468879200)])"
    using getEchoUTCOffset_rejects_at_first_failure
      [of timezone_failed "Some ''amzn1.device''" "Some ''consent''" ?ok1 ?ok2 ?place "[]"
        "\<lparr>statusCode = 200,
          body = \<lparr>status = ''OVER_QUERY_LIMIT'', rawOffset = 0, dstOffset = 0\<rparr>\<rparr>"]
    by (simp add: timezone_failed_def brisbane_def js_str_def)
  from a b c show ?thesis by blast
qed




lemma to_double_3630: "to_double 3630 = 3630"
  using to_double_int [of 3630] by simp




subsection \<open>The handler of the busy intent\<close>

lemma brisbane_offset:
  "getEchoUTCOffset (brisbane 1468879200000) (Some ''amzn1.device'') (Some ''consent'') =
     (Inr 600,
      [Call (AddressRequest ''amzn1.device'' ''Bearer consent''),
       Call (GeocodeRequest ''4000 AU''),
       Call (TimezoneRequest (- 2747 / 100) (15302 / 100) 1468879200)])"
  by (simp add: getEchoUTCOffset_def getEchoAddress_def geocodeLocation_def getUTCOffset_def
      and_then_def request_def resolve_def js_str_def brisbane_def to_double_36000
      to_double_600)

lemma brisbane_minutes:
  "getMinutesUntil (brisbane 1468879200000) ''13:00'' 600 = Some 300"
proof -
  have p: "moment_hm (brisbane 1468879200000) (''13:00'' @ ''Z'') ''HH:mmZ'' = Some (13, 0)"
    by (simp add: brisbane_def parser_defs)
  have d: "utc_midnight 1468879200000 = 1468800000000"
    by (simp add: utc_midnight_def)
  have t: "target_instant (brisbane 1468879200000) 13 0 600 = 1468810800000"
    by (simp add: target_instant_def brisbane_def offset_minutes_def d)
  have c: "clock (brisbane 1468879200000) = 1468879200000" by (simp add: brisbane_def)
  show ?thesis
    by (simp add: getMinutesUntil_closed_form [OF p] t c absFloor_def)
qed

lemma unlinked_snooze:
  "setSlackDNDUntil (brisbane 1468879200000) (Some ''13:00'') 600 None =
     (Inl (Error ''I couldn't snooze notifications. The error from Slack was: not_authed''),
      [Call (SnoozeRequest (Some 300) None)])"
proof -
  have n: "normalizeAmazonTime ''13:00'' = ''13:00''"
    by (simp add: normalizeAmazonTime_def)
  have api: "snooze_api (brisbane 1468879200000) (SnoozeRequest (Some 300) None) =
      Inr \<lparr>statusCode = 200, body = \<lparr>ok = False, error = ''not_authed''\<rparr>\<rparr>"
    by (simp add: brisbane_def slack_answer_def)
  show ?thesis
    by (simp add: setSlackDNDUntil_def js_str_def n brisbane_minutes setSlackDND_def
        and_then_def request_def reject_def api)
qed

text \<open>
  C8 fails on the code. A request without an access token, both slots filled: the
  handler emits the response that asks to link the account and goes on, since no
  \<^verbatim>\<open>return\<close> follows the check. It calls the three services of the location chain and
  Slack's snooze service, and emits a second response with Slack's error: two responses
  and four requests in the turn.
\<close>

theorem slackBusyIntentHandler_goes_on_without_token:
  "falsy (accessToken unlinked_request) \<and>
   slackBusyIntentHandler (brisbane 1468879200000) unlinked_request =
     [Emit (TellWithLinkAccountCard
        ''Please connect your Slack account to Alexa using the Alexa app on your phone.''),
      Call (AddressRequest ''amzn1.device'' ''Bearer consent''),
      Call (GeocodeRequest ''4000 AU''),
      Call (TimezoneRequest (- 2747 / 100) (15302 / 100) 1468879200),
      Call (SnoozeRequest (Some 300) None),
      Emit (Tell ''I couldn't snooze notifications. The error from Slack was: not_authed'')] \<and>
   length (filter is_emit (slackBusyIntentHandler (brisbane 1468879200000) unlinked_request)) = 2 \<and>
   length (filter is_call (slackBusyIntentHandler (brisbane 1468879200000) unlinked_request)) = 4"
proof -
  have run: "slackBusyIntentHandler (brisbane 1468879200000) unlinked_request =
     [Emit (TellWithLinkAccountCard
        ''Please connect your Slack account to Alexa using the Alexa app on your phone.''),
      Call (AddressRequest ''amzn1.device'' ''Bearer consent''),
      Call (GeocodeRequest ''4000 AU''),
      Call (TimezoneRequest (- 2747 / 100) (15302 / 100) 1468879200),
      Call (SnoozeRequest (Some 300) None),
      Emit (Tell ''I couldn't snooze notifications. The error from Slack was: not_authed'')]"
    by (simp add: slackBusyIntentHandler_def unlinked_request_def falsy_def brisbane_offset
        unlinked_snooze and_then_def catch_with_def)
  have "falsy (accessToken unlinked_request)"
    by (simp add: unlinked_request_def falsy_def)
  then show ?thesis by (simp add: run)
qed

text \<open>
  The same holds of every request and every world. The promise chain of the handler
  starts with the request to the device-address service whatever the checks found, and
  it ends with exactly one response, so that each missing value adds a response to the
  turn.
\<close>

lemma and_then_events:
  "snd (and_then p f) = snd p @ (case fst p of Inl e \<Rightarrow> [] | Inr x \<Rightarrow> snd (f x))"
  by (simp add: and_then_def split: sum.split)

lemma and_then_no_emit:
  assumes "filter is_emit (snd p) = []"
    and "\<And>x. filter is_emit (snd (f x)) = []"
  shows "filter is_emit (snd (and_then p f)) = []"
  using assms by (simp add: and_then_events split: sum.split)

lemma request_no_emit: "filter is_emit (snd (request opts service)) = []"
  by (simp add: request_def)

lemma setSlackDND_no_emit: "filter is_emit (snd (setSlackDND w minutes token)) = []"
  unfolding setSlackDND_def
  by (rule and_then_no_emit) (simp_all add: request_def reject_def resolve_def)

lemma setSlackStatus_no_emit: "filter is_emit (snd (setSlackStatus w prof token)) = []"
  unfolding setSlackStatus_def
  by (rule and_then_no_emit) (simp_all add: request_def reject_def resolve_def)

lemma getEchoAddress_no_emit:
  "filter is_emit (snd (getEchoAddress w device_id consent_token)) = []"
  unfolding getEchoAddress_def
  by (rule and_then_no_emit) (simp_all add: request_def reject_def resolve_def)

lemma geocodeLocation_no_emit: "filter is_emit (snd (geocodeLocation w location)) = []"
  unfolding geocodeLocation_def
  by (rule and_then_no_emit) (simp_all add: request_def reject_def resolve_def)

lemma getUTCOffset_no_emit: "filter is_emit (snd (getUTCOffset w location)) = []"
proof (cases location)
  case None
  then show ?thesis by (simp add: getUTCOffset_def reject_def)
next
  case (Some place)
  have "filter is_emit (snd (and_then
          (request (TimezoneRequest (lat place) (lng place) ((clock w + 500) div 1000))
             (timezone_api w))
          (\<lambda>response.
             if statusCode response = 200 \<and> status (body response) = ''OK'' then
               resolve
                 (to_double
                    (to_double (of_int (rawOffset (body response))
                                + of_int (dstOffset (body response))) / 60))
             else reject (Error (timezone_message @ status (body response)))))) = []"
    by (rule and_then_no_emit) (simp_all add: request_def reject_def resolve_def)
  with Some show ?thesis by (simp add: getUTCOffset_def)
qed

lemma getEchoUTCOffset_no_emit:
  "filter is_emit (snd (getEchoUTCOffset w device_id consent_token)) = []"
  unfolding getEchoUTCOffset_def
  by (intro and_then_no_emit getEchoAddress_no_emit geocodeLocation_no_emit
      getUTCOffset_no_emit)

lemma getEchoUTCOffset_first_call:
  "\<exists>later. snd (getEchoUTCOffset w device_id consent_token) =
     Call (AddressRequest (js_str device_id) (''Bearer '' @ js_str consent_token)) # later"
  by (simp add: getEchoUTCOffset_def getEchoAddress_def and_then_events request_def)

lemma chain_one_emit:
  assumes "filter is_emit (snd p) = []"
  shows "length (filter is_emit
           (catch_with (and_then p (\<lambda>done. emit sp)) (\<lambda>e. [Emit (Tell (err_message e))]))) = 1"
  using assms by (cases "fst p") (simp_all add: catch_with_def and_then_def emit_def)

lemma slackBusyIntentHandler_emits:
  "length (filter is_emit (slackBusyIntentHandler w ev)) =
     (if falsy (accessToken ev) then 1 else 0) + (if falsy (slot_status ev) then 1 else 0)
     + (if falsy (slot_time ev) then 1 else 0) + 1"
proof -
  let ?work = "and_then
      (and_then (getEchoUTCOffset w (deviceId ev) (consentToken ev))
         (\<lambda>offset. setSlackDNDUntil w (slot_time ev) offset (accessToken ev)))
      (\<lambda>done.
         case slot_status ev of
           None \<Rightarrow> reject (TypeError ''Cannot read property 'match' of undefined'')
         | Some text \<Rightarrow> setSlackStatus w (emojifyStatus text) (accessToken ev))"
  have "filter is_emit (snd ?work) = []"
    by (intro and_then_no_emit getEchoUTCOffset_no_emit)
      (simp_all add: setSlackDNDUntil_def setSlackDND_no_emit setSlackStatus_no_emit
        reject_def split: option.split)
  from chain_one_emit [OF this] show ?thesis
    by (simp add: slackBusyIntentHandler_def Let_def)
qed

lemma slackBusyIntentHandler_calls:
  "Call (AddressRequest (js_str (deviceId ev)) (''Bearer '' @ js_str (consentToken ev)))
     \<in> set (slackBusyIntentHandler w ev)"
proof -
  obtain later where
    "snd (getEchoUTCOffset w (deviceId ev) (consentToken ev)) =
       Call (AddressRequest (js_str (deviceId ev)) (''Bearer '' @ js_str (consentToken ev)))
         # later"
    using getEchoUTCOffset_first_call by blast
  then show ?thesis
    by (simp add: slackBusyIntentHandler_def Let_def catch_with_def and_then_events)
qed


end
